theory Spec2Isabelle
  imports Main "HOL-Library.Sublist"
begin

section \<open>The Databento adapter's common helpers\<close>

text \<open>
  A shallow embedding of \<^verbatim>\<open>nautilus_trader/adapters/databento/common.py\<close>: the function
  \<^verbatim>\<open>databento_schema_from_nautilus_bar_type\<close> (the specification's \<open>resolve\<close>) and the
  function \<^verbatim>\<open>map_instrumentId\<close> (the specification's \<open>transcode\<close>) with its
  \<^verbatim>\<open>lru_cache(20)\<close> decorator. Exceptions are values of the type \<open>error\<close>, and a
  function that can raise returns \<open>error + 'a\<close>, with \<open>Inl\<close> for the exception.
\<close>

subsection \<open>Errors\<close>

text \<open>
  \<open>ValueError msg\<close> is Python's \<^verbatim>\<open>ValueError\<close> with its message, raised by the four
  \<^verbatim>\<open>raise ValueError(...)\<close> statements of the schema function (the specification calls it
  \<open>UnsupportedBarTypeError\<close>), and by the parser of identifiers on a text that is not the
  string form of one. \<open>IndexError\<close> is what Python raises when a string is
  indexed out of range (the specification calls the failure on a symbol that is too short
  \<open>MalformedIdentifierError\<close>).

  Modelled from the spec: the failure of \<^verbatim>\<open>PyCondition.true\<close>
  (\<^verbatim>\<open>nautilus_trader.core.correctness\<close> is not among the source files). The specification
  calls it \<open>ContractViolation\<close>, a programming-contract failure that is not the recoverable
  \<open>UnsupportedBarTypeError\<close>; it carries the failure message given to the check.
\<close>

datatype error = ContractViolation string | ValueError string | IndexError

subsection \<open>Bar types\<close>

text \<open>
  Modelled from the spec: the enumerations and value objects that the source imports from
  \<^verbatim>\<open>nautilus_trader.model\<close> and \<^verbatim>\<open>nautilus_trader.adapters.databento.enums\<close>, none of
  which is among the source files.

  The source names the members \<open>SECOND\<close>, \<open>MINUTE\<close>, \<open>HOUR\<close> and \<open>DAY\<close> of
  \<open>BarAggregation\<close>; the specification adds that others may exist upstream. A member that the
  source does not name is \<open>OTHER k t\<close>: \<open>k\<close> is its enumeration value and \<open>t\<close> tells whether
  upstream counts it among the time aggregations.
\<close>

datatype BarAggregation = SECOND | MINUTE | HOUR | DAY | OTHER nat bool

datatype PriceType = BID | ASK | MID | LAST

datatype AggregationSource = EXTERNAL | INTERNAL

datatype DatabentoSchema = OHLCV_1S | OHLCV_1M | OHLCV_1H | OHLCV_1D

record BarSpecification =
  aggregation :: BarAggregation
  price_type :: PriceType
  step :: int

record BarType =
  spec :: BarSpecification
  aggregation_source :: AggregationSource

text \<open>
  Modelled from the spec: \<^verbatim>\<open>BarSpecification.is_time_aggregated\<close>. The specification calls
  \<open>SECOND\<close>, \<open>MINUTE\<close>, \<open>HOUR\<close> and \<open>DAY\<close> the four time-based units; for any other member
  the answer is the flag it carries.
\<close>

definition is_time_aggregated :: "BarSpecification \<Rightarrow> bool" where
  "is_time_aggregated s =
     (case aggregation s of
        OTHER k t \<Rightarrow> t
      | _ \<Rightarrow> True)"

text \<open>
  Modelled from the spec: \<^verbatim>\<open>BarType.is_externally_aggregated\<close>, the test that the
  aggregation source equals \<open>EXTERNAL\<close>.
\<close>

definition is_externally_aggregated :: "BarType \<Rightarrow> bool" where
  "is_externally_aggregated bar_type = (aggregation_source bar_type = EXTERNAL)"

text \<open>
  Modelled from the spec: \<^verbatim>\<open>PyCondition.true(predicate, fail_msg)\<close>. It returns when the
  predicate holds and fails with the contract violation otherwise.
\<close>

definition PyCondition_true :: "bool \<Rightarrow> string \<Rightarrow> error + unit" where
  "PyCondition_true predicate fail_msg =
     (if predicate then Inr () else Inl (ContractViolation fail_msg))"

subsection \<open>The schema of a bar type\<close>

text \<open>
  The source formats the bar type into each message with \<^verbatim>\<open>f"...'{bar_type}'..."\<close>, which
  calls \<^verbatim>\<open>BarType.__str__\<close>. The text it produces belongs to the absent class, so the
  function takes it as the parameter \<open>str_of\<close>. \<open>quote\<close> is the apostrophe around it.
\<close>

definition quote :: string where
  "quote = [CHR 0x27]"

definition databento_schema_from_nautilus_bar_type ::
    "(BarType \<Rightarrow> string) \<Rightarrow> BarType \<Rightarrow> error + DatabentoSchema" where
  "databento_schema_from_nautilus_bar_type str_of bar_type =
     (case PyCondition_true (is_externally_aggregated bar_type)
             ''aggregation_source is not EXTERNAL'' of
        Inl e \<Rightarrow> Inl e
      | Inr _ \<Rightarrow>
          if \<not> is_time_aggregated (spec bar_type) then
            Inl (ValueError (''Invalid bar type '' @ quote @ str_of bar_type @ quote
                   @ '' (only time bars are aggregated by Databento).''))
          else if price_type (spec bar_type) \<noteq> LAST then
            Inl (ValueError (''Invalid bar type '' @ quote @ str_of bar_type @ quote
                   @ '' (only `LAST` price bars are aggregated by Databento).''))
          else if step (spec bar_type) \<noteq> 1 then
            Inl (ValueError (''Invalid bar type '' @ quote @ str_of bar_type @ quote
                   @ '' (only a step of 1 is supported by Databento).''))
          else
            (case aggregation (spec bar_type) of
               SECOND \<Rightarrow> Inr OHLCV_1S
             | MINUTE \<Rightarrow> Inr OHLCV_1M
             | HOUR \<Rightarrow> Inr OHLCV_1H
             | DAY \<Rightarrow> Inr OHLCV_1D
             | _ \<Rightarrow>
                 Inl (ValueError (''Invalid bar type '' @ quote @ str_of bar_type @ quote
                        @ ''. Use any of ['' @ quote @ ''SECOND'' @ quote @ '', ''
                        @ quote @ ''MINTUE'' @ quote @ '', '' @ quote @ ''HOUR'' @ quote
                        @ '', '' @ quote @ ''DAY'' @ quote @ ''] time aggregations.''))))"

subsection \<open>Python strings\<close>

text \<open>
  A Python string is a list of characters. Instrument symbols and venues are ASCII text, on
  which \<^verbatim>\<open>str.isdigit\<close> holds of the ten characters \<open>0\<close> to \<open>9\<close>.
\<close>

definition isdigit :: "char \<Rightarrow> bool" where
  "isdigit c = (c \<in> set ''0123456789'')"

text \<open>
  \<open>py_index s i\<close> is \<^verbatim>\<open>s[i]\<close>: a negative index counts from the end, and an index
  out of range raises \<^verbatim>\<open>IndexError\<close>. \<open>py_slice_to s k\<close> is the slice \<^verbatim>\<open>s[:k]\<close>,
  which never raises.
\<close>

definition py_index :: "'a list \<Rightarrow> int \<Rightarrow> error + 'a" where
  "py_index s i =
     (let n = int (length s); j = (if i < 0 then n + i else i)
      in if 0 \<le> j \<and> j < n then Inr (s ! nat j) else Inl IndexError)"

definition py_slice_to :: "'a list \<Rightarrow> int \<Rightarrow> 'a list" where
  "py_slice_to s k = take (nat (if k < 0 then int (length s) + k else k)) s"

text \<open>
  \<open>str_int i\<close> is \<^verbatim>\<open>str(i)\<close> for a Python integer: the decimal digits, most significant
  first, after a minus sign when the integer is negative.
\<close>

definition digit_char :: "nat \<Rightarrow> char" where
  "digit_char d = ''0123456789'' ! d"

function str_nat :: "nat \<Rightarrow> string" where
  "str_nat n =
     (if n < 10 then [digit_char n] else str_nat (n div 10) @ [digit_char (n mod 10)])"
  by pat_completeness auto
termination
  by (relation "measure (\<lambda>n. n)") auto

declare str_nat.simps [simp del]

definition str_int :: "int \<Rightarrow> string" where
  "str_int i = (if i < 0 then CHR ''-'' # str_nat (nat (- i)) else str_nat (nat i))"

subsection \<open>Instrument identifiers\<close>

text \<open>
  Modelled from the spec: the value object \<^verbatim>\<open>InstrumentId\<close>
  (\<^verbatim>\<open>nautilus_trader.model.identifiers\<close> is not among the source files), a symbol and a
  venue, of which the source reads \<^verbatim>\<open>symbol.value\<close> and \<^verbatim>\<open>venue.value\<close>.
\<close>

record InstrumentId =
  symbol :: string
  venue :: string

text \<open>
  Modelled from the spec: \<^verbatim>\<open>InstrumentId.from_str\<close>, the parser of the string form. The
  specification gives the string form of an identifier as the symbol, a dot and the venue,
  the symbol first. A symbol may itself contain dots, so the text is split at its last
  dot: the venue is what follows it and the symbol is what precedes it. A text without a
  dot is not the string form of an identifier, and the parser raises \<^verbatim>\<open>ValueError\<close> with
  that text.
\<close>

definition rsplit_dot :: "string \<Rightarrow> (string \<times> string) option" where
  "rsplit_dot text =
     (if CHR ''.'' \<in> set text
      then Some (rev (tl (dropWhile (\<lambda>c. c \<noteq> CHR ''.'') (rev text))),
                 rev (takeWhile (\<lambda>c. c \<noteq> CHR ''.'') (rev text)))
      else None)"

definition from_str :: "string \<Rightarrow> error + InstrumentId" where
  "from_str text =
     (case rsplit_dot text of
        None \<Rightarrow> Inl (ValueError text)
      | Some (s, v) \<Rightarrow> Inr \<lparr>symbol = s, venue = v\<rparr>)"

subsection \<open>Mapping an instrument identifier\<close>

text \<open>
  The body of \<^verbatim>\<open>map_instrumentId\<close>. The source reads the clock,
  \<^verbatim>\<open>dt.datetime.now().year\<close>; the model takes that year as the argument \<open>now_year\<close>, the
  specification's \<open>as_of_year\<close>. The venue is rewritten first; then the symbol, where the
  test of \<^verbatim>\<open>symbol.value[-2]\<close> comes before the test of \<^verbatim>\<open>symbol.value[-1]\<close>, as in the
  source. The last line joins the new symbol, a dot and the new venue into one text,
  \<^verbatim>\<open>f"{new_symbol}.{new_venue}"\<close>, and parses that text.
\<close>

definition map_instrumentId :: "int \<Rightarrow> InstrumentId \<Rightarrow> error + InstrumentId" where
  "map_instrumentId now_year instrument_id =
     (let new_venue =
            (if venue instrument_id = ''GLBX'' then ''CME''
             else if venue instrument_id = ''CME'' then ''GLBX''
             else venue instrument_id)
      in case py_index (symbol instrument_id) (- 2) of
           Inl e \<Rightarrow> Inl e
         | Inr c2 \<Rightarrow>
             (case
                (if isdigit c2 then
                   (case py_index (symbol instrument_id) (- 1) of
                      Inl e \<Rightarrow> Inl e
                    | Inr c1 \<Rightarrow> Inr (py_slice_to (symbol instrument_id) (- 2) @ [c1]))
                 else
                   (case py_index (symbol instrument_id) (- 1) of
                      Inl e \<Rightarrow> Inl e
                    | Inr c1 \<Rightarrow>
                        if isdigit c1 then
                          (case py_index (str_int now_year) 0 of
                             Inl e \<Rightarrow> Inl e
                           | Inr y0 \<Rightarrow>
                               Inr (py_slice_to (symbol instrument_id) (- 1) @ [y0] @ [c1]))
                        else Inr (symbol instrument_id)))
              of
                Inl e \<Rightarrow> Inl e
              | Inr new_symbol \<Rightarrow> from_str (new_symbol @ ''.'' @ new_venue)))"

subsection \<open>The cache\<close>

text \<open>
  \<^verbatim>\<open>functools.lru_cache(maxsize)\<close> wraps a function of one hashable argument. The cache
  is a list of pairs of an argument and its result, the most recently used first. Keys are
  compared as values: two identifiers are the same key when symbol and venue agree. A call
  whose argument is in the cache returns the stored result and moves the entry to the
  front, and the wrapped function is not called. Otherwise the function is called; an
  exception leaves the cache as it was; a result is stored at the front, after the least
  recently used entry has been dropped when the cache is full. With \<open>maxsize = 0\<close> nothing
  is stored. The argument \<open>env\<close> is what the wrapped function reads from its environment at
  that call.
\<close>

definition lru_cache ::
    "nat \<Rightarrow> ('e \<Rightarrow> 'k \<Rightarrow> error + 'v) \<Rightarrow> ('k \<times> 'v) list \<Rightarrow> 'e \<Rightarrow> 'k
       \<Rightarrow> (error + 'v) \<times> ('k \<times> 'v) list" where
  "lru_cache maxsize f cache env k =
     (if maxsize = 0 then (f env k, cache)
      else case map_of cache k of
             Some v \<Rightarrow> (Inr v, (k, v) # filter (\<lambda>p. fst p \<noteq> k) cache)
           | None \<Rightarrow>
               (case f env k of
                  Inl e \<Rightarrow> (Inl e, cache)
                | Inr v \<Rightarrow>
                    (Inr v,
                     if maxsize \<le> length cache then (k, v) # butlast cache
                     else (k, v) # cache)))"

text \<open>
  The decorated function: \<^verbatim>\<open>@lru_cache(20)\<close> on \<^verbatim>\<open>map_instrumentId\<close>. It takes the cache
  and the year the clock shows at that call, and returns the result with the new cache.
\<close>

definition map_instrumentId_cached ::
    "(InstrumentId \<times> InstrumentId) list \<Rightarrow> int \<Rightarrow> InstrumentId
       \<Rightarrow> (error + InstrumentId) \<times> (InstrumentId \<times> InstrumentId) list" where
  "map_instrumentId_cached cache now_year instrument_id =
     lru_cache 20 map_instrumentId cache now_year instrument_id"

text \<open>
  A sequence of calls, each with the year of its moment; the cache after the last one.
\<close>

fun cache_after ::
    "(InstrumentId \<times> InstrumentId) list \<Rightarrow> (int \<times> InstrumentId) list
       \<Rightarrow> (InstrumentId \<times> InstrumentId) list" where
  "cache_after cache [] = cache"
| "cache_after cache ((y, k) # calls) =
     cache_after (snd (map_instrumentId_cached cache y k)) calls"


section \<open>Properties of the schema function\<close>

lemma sublist_quoted: "sublist s (q @ s @ r)"
  by (rule sublist_appendI)

lemma sublist_ConsI: "sublist s ys \<Longrightarrow> sublist s (c # ys)"
  by (simp add: sublist_Cons_right)

text \<open>Once the aggregation source is \<open>EXTERNAL\<close>, the contract check passes and the three
  tests and the match remain.\<close>

lemma schema_external:
  "aggregation_source bt = EXTERNAL \<Longrightarrow>
   databento_schema_from_nautilus_bar_type str_of bt =
     (if \<not> is_time_aggregated (spec bt) then
        Inl (ValueError (''Invalid bar type '' @ quote @ str_of bt @ quote
               @ '' (only time bars are aggregated by Databento).''))
      else if price_type (spec bt) \<noteq> LAST then
        Inl (ValueError (''Invalid bar type '' @ quote @ str_of bt @ quote
               @ '' (only `LAST` price bars are aggregated by Databento).''))
      else if step (spec bt) \<noteq> 1 then
        Inl (ValueError (''Invalid bar type '' @ quote @ str_of bt @ quote
               @ '' (only a step of 1 is supported by Databento).''))
      else
        (case aggregation (spec bt) of
           SECOND \<Rightarrow> Inr OHLCV_1S
         | MINUTE \<Rightarrow> Inr OHLCV_1M
         | HOUR \<Rightarrow> Inr OHLCV_1H
         | DAY \<Rightarrow> Inr OHLCV_1D
         | _ \<Rightarrow>
             Inl (ValueError (''Invalid bar type '' @ quote @ str_of bt @ quote
                    @ ''. Use any of ['' @ quote @ ''SECOND'' @ quote @ '', ''
                    @ quote @ ''MINTUE'' @ quote @ '', '' @ quote @ ''HOUR'' @ quote
                    @ '', '' @ quote @ ''DAY'' @ quote @ ''] time aggregations.''))))"
  by (simp add: databento_schema_from_nautilus_bar_type_def PyCondition_true_def
      is_externally_aggregated_def)

lemma schema_error_message:
  assumes "aggregation_source bt = EXTERNAL"
    and "databento_schema_from_nautilus_bar_type str_of bt = Inl e"
  shows "\<exists>msg. e = ValueError msg \<and> sublist (str_of bt) msg"
  using assms(2) unfolding schema_external [OF assms(1)]
  by (auto split: if_splits BarAggregation.splits intro!: sublist_quoted sublist_ConsI)

lemma schema_raises_iff:
  assumes "aggregation_source bt = EXTERNAL"
  shows "(\<exists>msg. databento_schema_from_nautilus_bar_type str_of bt = Inl (ValueError msg)) \<longleftrightarrow>
         (\<not> is_time_aggregated (spec bt) \<or> price_type (spec bt) \<noteq> LAST
          \<or> step (spec bt) \<noteq> 1 \<or> aggregation (spec bt) \<notin> {SECOND, MINUTE, HOUR, DAY})"
  unfolding schema_external [OF assms]
  by (auto split: BarAggregation.splits)

text \<open>
  C3. A bar type that is externally aggregated, of price type \<open>LAST\<close> and step 1, whose
  aggregation is \<open>SECOND\<close>, \<open>MINUTE\<close>, \<open>HOUR\<close> or \<open>DAY\<close>, has the schema \<open>OHLCV_1S\<close>,
  \<open>OHLCV_1M\<close>, \<open>OHLCV_1H\<close> or \<open>OHLCV_1D\<close> respectively.
\<close>

theorem schema_of_supported_bar_type:
  assumes "aggregation_source bt = EXTERNAL"
    and "price_type (spec bt) = LAST"
    and "step (spec bt) = 1"
  shows "(aggregation (spec bt) = SECOND \<longrightarrow>
            databento_schema_from_nautilus_bar_type str_of bt = Inr OHLCV_1S) \<and>
         (aggregation (spec bt) = MINUTE \<longrightarrow>
            databento_schema_from_nautilus_bar_type str_of bt = Inr OHLCV_1M) \<and>
         (aggregation (spec bt) = HOUR \<longrightarrow>
            databento_schema_from_nautilus_bar_type str_of bt = Inr OHLCV_1H) \<and>
         (aggregation (spec bt) = DAY \<longrightarrow>
            databento_schema_from_nautilus_bar_type str_of bt = Inr OHLCV_1D)"
  unfolding schema_external [OF assms(1)] using assms(2,3)
  by (simp add: is_time_aggregated_def)

theorem schema_of_supported_bar_type_witness:
  "databento_schema_from_nautilus_bar_type (\<lambda>b. ''1-SECOND-LAST-EXTERNAL'')
     \<lparr>spec = \<lparr>aggregation = SECOND, price_type = LAST, step = 1\<rparr>,
      aggregation_source = EXTERNAL\<rparr> = Inr OHLCV_1S \<and>
   databento_schema_from_nautilus_bar_type (\<lambda>b. ''1-MINUTE-LAST-EXTERNAL'')
     \<lparr>spec = \<lparr>aggregation = MINUTE, price_type = LAST, step = 1\<rparr>,
      aggregation_source = EXTERNAL\<rparr> = Inr OHLCV_1M \<and>
   databento_schema_from_nautilus_bar_type (\<lambda>b. ''1-HOUR-LAST-EXTERNAL'')
     \<lparr>spec = \<lparr>aggregation = HOUR, price_type = LAST, step = 1\<rparr>,
      aggregation_source = EXTERNAL\<rparr> = Inr OHLCV_1H \<and>
   databento_schema_from_nautilus_bar_type (\<lambda>b. ''1-DAY-LAST-EXTERNAL'')
     \<lparr>spec = \<lparr>aggregation = DAY, price_type = LAST, step = 1\<rparr>,
      aggregation_source = EXTERNAL\<rparr> = Inr OHLCV_1D"
  using
    schema_of_supported_bar_type
      [of "\<lparr>spec = \<lparr>aggregation = SECOND, price_type = LAST, step = 1\<rparr>,
            aggregation_source = EXTERNAL\<rparr>" "\<lambda>b. ''1-SECOND-LAST-EXTERNAL''"]
    schema_of_supported_bar_type
      [of "\<lparr>spec = \<lparr>aggregation = MINUTE, price_type = LAST, step = 1\<rparr>,
            aggregation_source = EXTERNAL\<rparr>" "\<lambda>b. ''1-MINUTE-LAST-EXTERNAL''"]
    schema_of_supported_bar_type
      [of "\<lparr>spec = \<lparr>aggregation = HOUR, price_type = LAST, step = 1\<rparr>,
            aggregation_source = EXTERNAL\<rparr>" "\<lambda>b. ''1-HOUR-LAST-EXTERNAL''"]
    schema_of_supported_bar_type
      [of "\<lparr>spec = \<lparr>aggregation = DAY, price_type = LAST, step = 1\<rparr>,
            aggregation_source = EXTERNAL\<rparr>" "\<lambda>b. ''1-DAY-LAST-EXTERNAL''"]
  by simp

text \<open>
  C4. For an externally aggregated bar type the function raises \<^verbatim>\<open>ValueError\<close> (the
  specification's \<open>UnsupportedBarTypeError\<close>) exactly when the aggregation is not
  time-based, or the price type is not \<open>LAST\<close>, or the step is not 1, or the aggregation is
  none of \<open>SECOND\<close>, \<open>MINUTE\<close>, \<open>HOUR\<close>, \<open>DAY\<close>; and whatever error it raises is a
  \<^verbatim>\<open>ValueError\<close> whose message contains the string form of the bar type.
\<close>

theorem schema_value_error_iff:
  assumes "aggregation_source bt = EXTERNAL"
  shows "((\<exists>msg. databento_schema_from_nautilus_bar_type str_of bt = Inl (ValueError msg)) \<longleftrightarrow>
          (\<not> is_time_aggregated (spec bt) \<or> price_type (spec bt) \<noteq> LAST
           \<or> step (spec bt) \<noteq> 1 \<or> aggregation (spec bt) \<notin> {SECOND, MINUTE, HOUR, DAY})) \<and>
         (\<forall>e. databento_schema_from_nautilus_bar_type str_of bt = Inl e \<longrightarrow>
              (\<exists>msg. e = ValueError msg \<and> sublist (str_of bt) msg))"
  using schema_raises_iff [OF assms] schema_error_message [OF assms]
  by blast

theorem schema_value_error_iff_witness:
  "aggregation_source
     \<lparr>spec = \<lparr>aggregation = MINUTE, price_type = LAST, step = 5\<rparr>,
      aggregation_source = EXTERNAL\<rparr> = EXTERNAL \<and>
   (\<exists>msg. databento_schema_from_nautilus_bar_type (\<lambda>b. ''5-MINUTE-LAST-EXTERNAL'')
            \<lparr>spec = \<lparr>aggregation = MINUTE, price_type = LAST, step = 5\<rparr>,
             aggregation_source = EXTERNAL\<rparr> = Inl (ValueError msg) \<and>
          sublist ''5-MINUTE-LAST-EXTERNAL'' msg)"
  using
    schema_value_error_iff
      [of "\<lparr>spec = \<lparr>aggregation = MINUTE, price_type = LAST, step = 5\<rparr>,
            aggregation_source = EXTERNAL\<rparr>" "\<lambda>b. ''5-MINUTE-LAST-EXTERNAL''"]
  by auto

text \<open>
  C5. A bar type whose aggregation source is not \<open>EXTERNAL\<close> fails the contract check:
  the function returns the contract violation, which is not a \<^verbatim>\<open>ValueError\<close>, whatever
  the aggregation, the price type and the step are, so no other test is reached before it.
\<close>

theorem schema_contract_violation:
  assumes "aggregation_source bt \<noteq> EXTERNAL"
  shows "databento_schema_from_nautilus_bar_type str_of bt =
           Inl (ContractViolation ''aggregation_source is not EXTERNAL'') \<and>
         (\<forall>msg. databento_schema_from_nautilus_bar_type str_of bt \<noteq> Inl (ValueError msg))"
  using assms
  by (simp add: databento_schema_from_nautilus_bar_type_def PyCondition_true_def
      is_externally_aggregated_def)

theorem schema_contract_violation_witness:
  "aggregation_source
     \<lparr>spec = \<lparr>aggregation = MINUTE, price_type = LAST, step = 1\<rparr>,
      aggregation_source = INTERNAL\<rparr> \<noteq> EXTERNAL \<and>
   databento_schema_from_nautilus_bar_type (\<lambda>b. ''1-MINUTE-LAST-INTERNAL'')
     \<lparr>spec = \<lparr>aggregation = MINUTE, price_type = LAST, step = 1\<rparr>,
      aggregation_source = INTERNAL\<rparr> =
     Inl (ContractViolation ''aggregation_source is not EXTERNAL'') \<and>
   databento_schema_from_nautilus_bar_type (\<lambda>b. ''5-TICK-MID-INTERNAL'')
     \<lparr>spec = \<lparr>aggregation = OTHER 1 False, price_type = MID, step = 5\<rparr>,
      aggregation_source = INTERNAL\<rparr> =
     Inl (ContractViolation ''aggregation_source is not EXTERNAL'')"
  using
    schema_contract_violation
      [of "\<lparr>spec = \<lparr>aggregation = MINUTE, price_type = LAST, step = 1\<rparr>,
            aggregation_source = INTERNAL\<rparr>" "\<lambda>b. ''1-MINUTE-LAST-INTERNAL''"]
    schema_contract_violation
      [of "\<lparr>spec = \<lparr>aggregation = OTHER 1 False, price_type = MID, step = 5\<rparr>,
            aggregation_source = INTERNAL\<rparr>" "\<lambda>b. ''5-TICK-MID-INTERNAL''"]
  by simp

section \<open>Properties of the identifier mapping\<close>

text \<open>The reads and slices that the function makes, on a symbol long enough for them.\<close>

lemma py_index_penultimate:
  "2 \<le> length s \<Longrightarrow> py_index s (- 2) = Inr (s ! (length s - 2))"
  by (simp add: py_index_def Let_def nat_diff_distrib' int_ops)

lemma py_index_too_short: "length s < 2 \<Longrightarrow> py_index s (- 2) = Inl IndexError"
  by (simp add: py_index_def Let_def)

lemma py_index_last: "s \<noteq> [] \<Longrightarrow> py_index s (- 1) = Inr (last s)"
  by (simp add: py_index_def Let_def last_conv_nth nat_diff_distrib' int_ops)

lemma py_index_first: "s \<noteq> [] \<Longrightarrow> py_index s 0 = Inr (hd s)"
  by (simp add: py_index_def Let_def hd_conv_nth)

lemma py_slice_to_minus2: "py_slice_to s (- 2) = take (length s - 2) s"
  by (simp add: py_slice_to_def nat_diff_distrib' int_ops)

lemma py_slice_to_minus1: "py_slice_to s (- 1) = butlast s"
  by (simp add: py_slice_to_def butlast_conv_take nat_diff_distrib' int_ops)

lemma str_nat_not_empty: "str_nat n \<noteq> []"
  by (subst str_nat.simps) simp

lemma str_int_not_empty: "str_int i \<noteq> []"
  by (simp add: str_int_def str_nat_not_empty)

text \<open>The parser on a joined text: the split is at the last dot of the whole text.\<close>

lemma rsplit_dot_last:
  assumes "CHR ''.'' \<notin> set b"
  shows "rsplit_dot (a @ CHR ''.'' # b) = Some (a, b)"
proof -
  have r: "rev (a @ CHR ''.'' # b) = rev b @ CHR ''.'' # rev a"
    by simp
  from assms have "takeWhile (\<lambda>c. c \<noteq> CHR ''.'') (rev b @ CHR ''.'' # rev a) = rev b"
    by (subst takeWhile_append2) auto
  moreover from assms
  have "dropWhile (\<lambda>c. c \<noteq> CHR ''.'') (rev b @ CHR ''.'' # rev a) = CHR ''.'' # rev a"
    by (subst dropWhile_append2) auto
  ultimately show ?thesis
    unfolding rsplit_dot_def r by simp
qed

lemma from_str_join:
  "CHR ''.'' \<notin> set v \<Longrightarrow> from_str (s @ ''.'' @ v) = Inr \<lparr>symbol = s, venue = v\<rparr>"
  by (simp add: from_str_def rsplit_dot_last)

lemma from_str_join_any:
  "\<exists>r. from_str (s @ ''.'' @ v) = Inr r \<and> prefix s (symbol r)
        \<and> venue r = rev (takeWhile (\<lambda>c. c \<noteq> CHR ''.'') (rev v))"
proof (cases "CHR ''.'' \<in> set v")
  case False
  then have "takeWhile (\<lambda>c. c \<noteq> CHR ''.'') (rev v) = rev v"
    by (auto simp: takeWhile_eq_all_conv)
  then have tw: "rev (takeWhile (\<lambda>c. c \<noteq> CHR ''.'') (rev v)) = v"
    by (simp only: rev_rev_ident)
  from False have "from_str (s @ ''.'' @ v) = Inr \<lparr>symbol = s, venue = v\<rparr>"
    by (rule from_str_join)
  then show ?thesis
    unfolding tw by simp
next
  case True
  then obtain v1 v2 where v: "v = v1 @ CHR ''.'' # v2" and v2: "CHR ''.'' \<notin> set v2"
    by (auto dest: split_list_last)
  have "s @ ''.'' @ v = (s @ CHR ''.'' # v1) @ CHR ''.'' # v2"
    by (simp add: v)
  then have parsed: "from_str (s @ ''.'' @ v) = Inr \<lparr>symbol = s @ CHR ''.'' # v1, venue = v2\<rparr>"
    by (simp only: from_str_def rsplit_dot_last [OF v2]) simp
  from v2 have "takeWhile (\<lambda>c. c \<noteq> CHR ''.'') (rev v2 @ CHR ''.'' # rev v1) = rev v2"
    by (subst takeWhile_append2) auto
  then have "rev (takeWhile (\<lambda>c. c \<noteq> CHR ''.'') (rev v)) = v2"
    by (simp add: v)
  with parsed show ?thesis
    by simp
qed

text \<open>
  On a symbol of at least two characters no read fails, and the function parses the join
  of the rewritten symbol and the rewritten venue.
\<close>

lemma map_instrumentId_join:
  assumes "2 \<le> length (symbol x)"
  shows "map_instrumentId y x =
     from_str
       ((if isdigit (symbol x ! (length (symbol x) - 2))
         then take (length (symbol x) - 2) (symbol x) @ [last (symbol x)]
         else if isdigit (last (symbol x))
         then butlast (symbol x) @ [hd (str_int y)] @ [last (symbol x)]
         else symbol x)
        @ ''.'' @
        (if venue x = ''GLBX'' then ''CME''
         else if venue x = ''CME'' then ''GLBX'' else venue x))"
proof -
  from assms have ne: "symbol x \<noteq> []" by auto
  show ?thesis
    unfolding map_instrumentId_def Let_def py_index_penultimate [OF assms]
      py_index_last [OF ne] py_index_first [OF str_int_not_empty]
      py_slice_to_minus2 py_slice_to_minus1
    by simp
qed

lemma new_venue_no_dot:
  "CHR ''.'' \<notin> set v \<Longrightarrow>
   CHR ''.'' \<notin> set (if v = ''GLBX'' then ''CME'' else if v = ''CME'' then ''GLBX'' else v)"
  by simp

lemma map_instrumentId_cases:
  assumes "2 \<le> length (symbol x)" and "CHR ''.'' \<notin> set (venue x)"
  shows "map_instrumentId y x =
     Inr \<lparr>symbol =
            (if isdigit (symbol x ! (length (symbol x) - 2))
             then take (length (symbol x) - 2) (symbol x) @ [last (symbol x)]
             else if isdigit (last (symbol x))
             then butlast (symbol x) @ [hd (str_int y)] @ [last (symbol x)]
             else symbol x),
          venue =
            (if venue x = ''GLBX'' then ''CME''
             else if venue x = ''CME'' then ''GLBX'' else venue x)\<rparr>"
  unfolding map_instrumentId_join [OF assms(1)]
  by (rule from_str_join) (rule new_venue_no_dot [OF assms(2)])

lemma map_instrumentId_short:
  "length (symbol x) < 2 \<Longrightarrow> map_instrumentId y x = Inl IndexError"
  by (simp add: map_instrumentId_def py_index_too_short)


lemma map_instrumentId_returned:
  "map_instrumentId y x = Inr r \<Longrightarrow> 2 \<le> length (symbol x)"
  by (rule ccontr) (simp add: map_instrumentId_short)

section \<open>Properties of the cache\<close>

subsection \<open>One call\<close>

lemma lru_cache_hit:
  "0 < n \<Longrightarrow> map_of cache k = Some v \<Longrightarrow>
   lru_cache n f cache env k = (Inr v, (k, v) # filter (\<lambda>p. fst p \<noteq> k) cache)"
  by (simp add: lru_cache_def)

lemma lru_cache_miss:
  "0 < n \<Longrightarrow> map_of cache k = None \<Longrightarrow> f env k = Inr v \<Longrightarrow>
   lru_cache n f cache env k =
     (Inr v, if n \<le> length cache then (k, v) # butlast cache else (k, v) # cache)"
  by (simp add: lru_cache_def)

lemma lru_cache_miss_error:
  "map_of cache k = None \<Longrightarrow> f env k = Inl e \<Longrightarrow> lru_cache n f cache env k = (f env k, cache)"
  by (simp add: lru_cache_def)


text \<open>
  Every entry of the cache after a call was there before, or is the result that the
  wrapped function has just returned for the key of the call.
\<close>

lemma lru_cache_entries:
  assumes "p \<in> set (snd (lru_cache n f cache env k))"
  shows "p \<in> set cache \<or> (\<exists>r. p = (k, r) \<and> f env k = Inr r)"
proof (cases "n = 0")
  case True
  with assms show ?thesis by (simp add: lru_cache_def)
next
  case False
  then have n: "0 < n" by simp
  show ?thesis
  proof (cases "map_of cache k")
    case (Some v)
    then have "(k, v) \<in> set cache" by (rule map_of_SomeD)
    with assms show ?thesis
      by (auto simp: lru_cache_hit [OF n Some])
  next
    case None
    show ?thesis
    proof (cases "f env k")
      case (Inl e)
      with assms None show ?thesis
        by (simp add: lru_cache_miss_error [where f = f and env = env])
    next
      case (Inr r)
      with assms show ?thesis
        by (auto simp: lru_cache_miss [where f = f and env = env, OF n None Inr]
            split: if_splits dest: in_set_butlastD)
    qed
  qed
qed






subsection \<open>Sequences of calls from the empty cache\<close>

lemma cache_after_append:
  "cache_after cache (xs @ ys) = cache_after (cache_after cache xs) ys"
  by (induction cache xs rule: cache_after.induct) simp_all

lemma cache_after_snoc:
  "cache_after cache (calls @ [(y, k)]) =
     snd (map_instrumentId_cached (cache_after cache calls) y k)"
  by (simp add: cache_after_append)




text \<open>
  What is stored under a key is what the function returned at an earlier call on that
  very key.
\<close>

lemma cache_after_entries:
  "(k, v) \<in> set (cache_after [] calls) \<Longrightarrow>
   \<exists>y0. (y0, k) \<in> set calls \<and> map_instrumentId y0 k = Inr v"
proof (induction calls arbitrary: k v rule: rev_induct)
  case Nil
  then show ?case by simp
next
  case (snoc c calls)
  obtain y k' where c: "c = (y, k')" by (cases c)
  from snoc.prems
  have "(k, v) \<in> set (snd (lru_cache 20 map_instrumentId (cache_after [] calls) y k'))"
    by (simp add: c cache_after_snoc map_instrumentId_cached_def)
  then have "(k, v) \<in> set (cache_after [] calls)
             \<or> (\<exists>r. (k, v) = (k', r) \<and> map_instrumentId y k' = Inr r)"
    by (rule lru_cache_entries)
  then show ?case
  proof
    assume "(k, v) \<in> set (cache_after [] calls)"
    then have "\<exists>y0. (y0, k) \<in> set calls \<and> map_instrumentId y0 k = Inr v"
      by (rule snoc.IH)
    then show ?thesis by auto
  next
    assume "\<exists>r. (k, v) = (k', r) \<and> map_instrumentId y k' = Inr r"
    then have "(y, k) \<in> set (calls @ [c]) \<and> map_instrumentId y k = Inr v"
      by (auto simp: c)
    then show ?thesis by blast
  qed
qed


text \<open>
  The result of a call of the decorated function: what is stored under the key, and
  otherwise what the function returns.
\<close>

lemma map_instrumentId_cached_result:
  "fst (map_instrumentId_cached cache y k) =
     (case map_of cache k of Some v \<Rightarrow> Inr v | None \<Rightarrow> map_instrumentId y k)"
  by (simp add: map_instrumentId_cached_def lru_cache_def split: option.splits sum.splits)

text \<open>
  From any cache reached from the empty one, a call returns what the function returns in
  the year of that call or in the year of an earlier call on the same identifier.
\<close>

lemma map_instrumentId_cached_reached:
  "\<exists>y0. (y0 = y \<or> (y0, k) \<in> set calls) \<and>
        fst (map_instrumentId_cached (cache_after [] calls) y k) = map_instrumentId y0 k"
proof (cases "map_of (cache_after [] calls) k")
  case None
  then show ?thesis
    by (auto simp: map_instrumentId_cached_result)
next
  case (Some v)
  then have "(k, v) \<in> set (cache_after [] calls)" by (rule map_of_SomeD)
  then obtain y0 where "(y0, k) \<in> set calls" and "map_instrumentId y0 k = Inr v"
    by (auto dest: cache_after_entries)
  with Some show ?thesis
    by (auto simp: map_instrumentId_cached_result)
qed

section \<open>The claims about the identifier mapping\<close>




text \<open>
  C2, as stated, fails on a venue that contains a dot: \<open>ESH24\<close> with venue \<open>A.B\<close> gives
  the symbol \<open>ESH4.A\<close> and the venue \<open>B\<close>. However a joined text is parsed, \<open>ESH24\<close>
  with venue \<open>A.B\<close> and \<open>ESH4.1A\<close> with venue \<open>B\<close> are joined to the same text and
  have the same result, where the claim asks for the symbols \<open>ESH4\<close> and \<open>ESH4.A\<close>.
\<close>

theorem two_digit_year_counterexample:
  "2 \<le> length ''ESH24'' \<and> isdigit (''ESH24'' ! (length ''ESH24'' - 2)) \<and>
   map_instrumentId 2024 \<lparr>symbol = ''ESH24'', venue = ''A.B''\<rparr> =
     Inr \<lparr>symbol = ''ESH4.A'', venue = ''B''\<rparr> \<and>
   map_instrumentId 2024 \<lparr>symbol = ''ESH24'', venue = ''A.B''\<rparr> =
     map_instrumentId 2024 \<lparr>symbol = ''ESH4.1A'', venue = ''B''\<rparr>"
  by (simp add: map_instrumentId_def py_index_def py_slice_to_def isdigit_def
      from_str_def rsplit_dot_def)

text \<open>
  C2, amended. When the venue contains no dot, the symbol has at least two characters and
  the penultimate one is a digit, the result's symbol is the input symbol without its
  penultimate character: the characters before it, then the last character. The decorated
  function returns the same identifier from any cache reached from the empty one.
  \<open>ESH24.GLBX\<close> becomes \<open>ESH4.CME\<close>.
\<close>

theorem map_instrumentId_two_digit_year:
  assumes "2 \<le> length (symbol x)"
    and "isdigit (symbol x ! (length (symbol x) - 2))"
    and "CHR ''.'' \<notin> set (venue x)"
  shows "map_instrumentId y x =
           Inr \<lparr>symbol = take (length (symbol x) - 2) (symbol x)
                          @ drop (length (symbol x) - 1) (symbol x),
                venue = (if venue x = ''GLBX'' then ''CME''
                         else if venue x = ''CME'' then ''GLBX'' else venue x)\<rparr> \<and>
         fst (map_instrumentId_cached (cache_after [] calls) y x) =
           Inr \<lparr>symbol = take (length (symbol x) - 2) (symbol x)
                          @ drop (length (symbol x) - 1) (symbol x),
                venue = (if venue x = ''GLBX'' then ''CME''
                         else if venue x = ''CME'' then ''GLBX'' else venue x)\<rparr>"
proof -
  from assms(1) have "symbol x \<noteq> []" by auto
  then have "drop (length (symbol x) - 1) (symbol x) = [last (symbol x)]"
    by (metis append_butlast_last_id append_eq_conv_conj length_butlast)
  with assms(2)
  have body: "map_instrumentId z x =
           Inr \<lparr>symbol = take (length (symbol x) - 2) (symbol x)
                          @ drop (length (symbol x) - 1) (symbol x),
                venue = (if venue x = ''GLBX'' then ''CME''
                         else if venue x = ''CME'' then ''GLBX'' else venue x)\<rparr>" for z
    by (simp add: map_instrumentId_cases [OF assms(1,3)])
  from map_instrumentId_cached_reached [of y x calls] body
  have "fst (map_instrumentId_cached (cache_after [] calls) y x) =
           Inr \<lparr>symbol = take (length (symbol x) - 2) (symbol x)
                          @ drop (length (symbol x) - 1) (symbol x),
                venue = (if venue x = ''GLBX'' then ''CME''
                         else if venue x = ''CME'' then ''GLBX'' else venue x)\<rparr>"
    by metis
  with body [of y] show ?thesis ..
qed

theorem map_instrumentId_two_digit_year_witness:
  "2 \<le> length ''ESH24'' \<and> isdigit (''ESH24'' ! (length ''ESH24'' - 2)) \<and>
   CHR ''.'' \<notin> set ''GLBX'' \<and>
   map_instrumentId 2024 \<lparr>symbol = ''ESH24'', venue = ''GLBX''\<rparr> =
     Inr \<lparr>symbol = ''ESH4'', venue = ''CME''\<rparr> \<and>
   fst (map_instrumentId_cached [] 2024 \<lparr>symbol = ''ESH24'', venue = ''GLBX''\<rparr>) =
     Inr \<lparr>symbol = ''ESH4'', venue = ''CME''\<rparr>"
  using map_instrumentId_two_digit_year
          [of "\<lparr>symbol = ''ESH24'', venue = ''GLBX''\<rparr>" 2024 "[]"]
  by (simp add: isdigit_def)

text \<open>
  C6. A symbol of fewer than two characters, the empty one included, makes the read of
  \<^verbatim>\<open>symbol.value[-2]\<close> fail: the function raises \<^verbatim>\<open>IndexError\<close> (the specification's
  \<open>MalformedIdentifierError\<close>) and returns no identifier. The decorated function lets the
  error through to its caller and stores nothing.
\<close>

theorem map_instrumentId_too_short:
  assumes "length (symbol x) < 2"
  shows "map_instrumentId y x = Inl IndexError \<and>
         (map_of cache x = None \<longrightarrow>
            map_instrumentId_cached cache y x = (Inl IndexError, cache))"
  using map_instrumentId_short [OF assms]
    lru_cache_miss_error [of cache x map_instrumentId y IndexError 20]
  by (simp add: map_instrumentId_cached_def)

theorem map_instrumentId_too_short_witness:
  "length (symbol \<lparr>symbol = ''4'', venue = ''CME''\<rparr>) < 2 \<and>
   map_instrumentId 2024 \<lparr>symbol = ''4'', venue = ''CME''\<rparr> = Inl IndexError \<and>
   map_instrumentId 2024 \<lparr>symbol = [], venue = ''CME''\<rparr> = Inl IndexError \<and>
   map_instrumentId_cached [] 2024 \<lparr>symbol = ''4'', venue = ''CME''\<rparr> = (Inl IndexError, [])"
  using map_instrumentId_too_short [of "\<lparr>symbol = ''4'', venue = ''CME''\<rparr>" 2024 "[]"]
    map_instrumentId_too_short [of "\<lparr>symbol = [], venue = ''CME''\<rparr>" 2024 "[]"]
  by simp

text \<open>
  C7, as stated, fails in two ways. Where a call raises there is no venue: \<open>12.GLBX\<close> is
  mapped to \<open>2.CME\<close>, and mapping that again raises \<^verbatim>\<open>IndexError\<close>. And a venue outside
  the pair that contains a dot does not pass through: \<open>SPY\<close> with venue \<open>A.B\<close> gives the
  venue \<open>B\<close>. However a joined text is parsed, \<open>SPY\<close> with venue \<open>A.B\<close> and \<open>SPY.A\<close>
  with venue \<open>B\<close> have the same result, so one of the two venues is not kept.
\<close>

theorem venue_round_trip_counterexample:
  "venue \<lparr>symbol = ''12'', venue = ''GLBX''\<rparr> = ''GLBX'' \<and>
   map_instrumentId 2024 \<lparr>symbol = ''12'', venue = ''GLBX''\<rparr> =
     Inr \<lparr>symbol = ''2'', venue = ''CME''\<rparr> \<and>
   map_instrumentId 2024 \<lparr>symbol = ''2'', venue = ''CME''\<rparr> = Inl IndexError \<and>
   map_instrumentId 2024 \<lparr>symbol = ''SPY'', venue = ''A.B''\<rparr> =
     Inr \<lparr>symbol = ''SPY.A'', venue = ''B''\<rparr> \<and>
   map_instrumentId 2024 \<lparr>symbol = ''SPY'', venue = ''A.B''\<rparr> =
     map_instrumentId 2024 \<lparr>symbol = ''SPY.A'', venue = ''B''\<rparr>"
  by (simp add: map_instrumentId_def py_index_def py_slice_to_def isdigit_def
      from_str_def rsplit_dot_def)

text \<open>
  C7, amended. Whenever the function returns, \<open>GLBX\<close> has become \<open>CME\<close> and \<open>CME\<close> has
  become \<open>GLBX\<close>; for a venue of that pair, whenever the function returns on the result as
  well (in whatever year), the venue is the original one again; a venue outside the pair
  that contains no dot is unchanged; and of any venue outside the pair the result keeps
  what follows its last dot.
\<close>

theorem venue_round_trip:
  assumes "map_instrumentId y x = Inr x'"
  shows "(venue x = ''GLBX'' \<longrightarrow> venue x' = ''CME'') \<and>
         (venue x = ''CME'' \<longrightarrow> venue x' = ''GLBX'') \<and>
         (venue x \<in> {''GLBX'', ''CME''} \<longrightarrow>
            (\<forall>y' x''. map_instrumentId y' x' = Inr x'' \<longrightarrow> venue x'' = venue x)) \<and>
         (venue x \<notin> {''GLBX'', ''CME''} \<and> CHR ''.'' \<notin> set (venue x) \<longrightarrow>
            venue x' = venue x) \<and>
         (venue x \<notin> {''GLBX'', ''CME''} \<longrightarrow>
            venue x' = rev (takeWhile (\<lambda>c. c \<noteq> CHR ''.'') (rev (venue x))))"
proof -
  have venue_of:
    "venue b = rev (takeWhile (\<lambda>c. c \<noteq> CHR ''.'')
                 (rev (if venue a = ''GLBX'' then ''CME''
                       else if venue a = ''CME'' then ''GLBX'' else venue a)))"
    if "map_instrumentId z a = Inr b" for z a b
  proof -
    from that have long: "2 \<le> length (symbol a)"
      by (rule map_instrumentId_returned)
    from that from_str_join_any show ?thesis
      unfolding map_instrumentId_join [OF long] by (metis sum.inject(2))
  qed
  have glbx: "venue b = ''CME''"
    if "map_instrumentId z a = Inr b" and "venue a = ''GLBX''" for z a b
    using venue_of [OF that(1)] that(2) by simp
  have cme: "venue b = ''GLBX''"
    if "map_instrumentId z a = Inr b" and "venue a = ''CME''" for z a b
    using venue_of [OF that(1)] that(2) by simp
  have other: "venue x' = rev (takeWhile (\<lambda>c. c \<noteq> CHR ''.'') (rev (venue x)))"
    if "venue x \<notin> {''GLBX'', ''CME''}"
    using venue_of [OF assms] that by simp
  have plain: "venue x' = venue x"
    if "venue x \<notin> {''GLBX'', ''CME''}" and "CHR ''.'' \<notin> set (venue x)"
  proof -
    from that(2) have "takeWhile (\<lambda>c. c \<noteq> CHR ''.'') (rev (venue x)) = rev (venue x)"
      by (auto simp: takeWhile_eq_all_conv)
    then have "rev (takeWhile (\<lambda>c. c \<noteq> CHR ''.'') (rev (venue x))) = venue x"
      by (simp only: rev_rev_ident)
    with other [OF that(1)] show ?thesis by simp
  qed
  have round: "venue u = venue x"
    if "venue x \<in> {''GLBX'', ''CME''}" and "map_instrumentId w x' = Inr u" for w u
    using that glbx [OF assms] cme [OF assms] glbx [OF that(2)] cme [OF that(2)]
    by auto
  from glbx [OF assms] cme [OF assms] round plain other show ?thesis
    by blast
qed

theorem venue_round_trip_witness:
  "map_instrumentId 2024 \<lparr>symbol = ''ESH24'', venue = ''GLBX''\<rparr> =
     Inr \<lparr>symbol = ''ESH4'', venue = ''CME''\<rparr> \<and>
   map_instrumentId 2024 \<lparr>symbol = ''ESH4'', venue = ''CME''\<rparr> =
     Inr \<lparr>symbol = ''ESH24'', venue = ''GLBX''\<rparr> \<and>
   venue \<lparr>symbol = ''ESH4'', venue = ''CME''\<rparr> = ''CME'' \<and>
   venue \<lparr>symbol = ''ESH24'', venue = ''GLBX''\<rparr> = ''GLBX''"
proof -
  have h: "map_instrumentId 2024 \<lparr>symbol = ''ESH24'', venue = ''GLBX''\<rparr> =
             Inr \<lparr>symbol = ''ESH4'', venue = ''CME''\<rparr>"
    by (simp add: map_instrumentId_def py_index_def py_slice_to_def isdigit_def
        from_str_def rsplit_dot_def)
  have h': "map_instrumentId 2024 \<lparr>symbol = ''ESH4'', venue = ''CME''\<rparr> =
             Inr \<lparr>symbol = ''ESH24'', venue = ''GLBX''\<rparr>"
    by (simp add: map_instrumentId_def py_index_def py_slice_to_def isdigit_def
        from_str_def rsplit_dot_def str_int_def str_nat.simps digit_char_def)
  show ?thesis using venue_round_trip [OF h] h h' by simp
qed

text \<open>
  C8, as stated, fails in two ways. A symbol of one character that is not a digit has no
  penultimate character, and the function raises \<^verbatim>\<open>IndexError\<close> on \<open>F.GLBX\<close> instead of
  returning \<open>F.CME\<close>. And with a venue that contains a dot the symbol is not unchanged:
  \<open>SPY\<close> with venue \<open>A.B\<close> gives the symbol \<open>SPY.A\<close>. However a joined text is
  parsed, \<open>SPY\<close> with venue \<open>A.B\<close> and \<open>SPY.A\<close> with venue \<open>B\<close> have the same
  result, so one of the two symbols is changed.
\<close>

theorem symbol_unchanged_counterexample:
  "\<not> isdigit (last ''F'') \<and> length ''F'' = 1 \<and>
   map_instrumentId 2024 \<lparr>symbol = ''F'', venue = ''GLBX''\<rparr> = Inl IndexError \<and>
   \<not> isdigit (last ''SPY'') \<and> \<not> isdigit (''SPY'' ! (length ''SPY'' - 2)) \<and>
   map_instrumentId 2024 \<lparr>symbol = ''SPY'', venue = ''A.B''\<rparr> =
     Inr \<lparr>symbol = ''SPY.A'', venue = ''B''\<rparr> \<and>
   map_instrumentId 2024 \<lparr>symbol = ''SPY'', venue = ''A.B''\<rparr> =
     map_instrumentId 2024 \<lparr>symbol = ''SPY.A'', venue = ''B''\<rparr>"
  by (simp add: map_instrumentId_def py_index_def py_slice_to_def isdigit_def
      from_str_def rsplit_dot_def)

text \<open>
  C8, amended. When the venue contains no dot, the symbol has at least two characters and
  neither the last nor the penultimate one is a digit, the result has the same symbol and
  the rewritten venue. The decorated function returns the same identifier from any cache
  reached from the empty one. \<open>SPY.GLBX\<close> becomes \<open>SPY.CME\<close>.
\<close>

theorem map_instrumentId_no_year_digit:
  assumes "2 \<le> length (symbol x)"
    and "\<not> isdigit (last (symbol x))"
    and "\<not> isdigit (symbol x ! (length (symbol x) - 2))"
    and "CHR ''.'' \<notin> set (venue x)"
  shows "map_instrumentId y x =
           Inr \<lparr>symbol = symbol x,
                venue = (if venue x = ''GLBX'' then ''CME''
                         else if venue x = ''CME'' then ''GLBX'' else venue x)\<rparr> \<and>
         fst (map_instrumentId_cached (cache_after [] calls) y x) =
           Inr \<lparr>symbol = symbol x,
                venue = (if venue x = ''GLBX'' then ''CME''
                         else if venue x = ''CME'' then ''GLBX'' else venue x)\<rparr>"
proof -
  have body: "map_instrumentId z x =
           Inr \<lparr>symbol = symbol x,
                venue = (if venue x = ''GLBX'' then ''CME''
                         else if venue x = ''CME'' then ''GLBX'' else venue x)\<rparr>" for z
    using assms(2,3) by (simp add: map_instrumentId_cases [OF assms(1,4)])
  from map_instrumentId_cached_reached [of y x calls] body
  have "fst (map_instrumentId_cached (cache_after [] calls) y x) =
           Inr \<lparr>symbol = symbol x,
                venue = (if venue x = ''GLBX'' then ''CME''
                         else if venue x = ''CME'' then ''GLBX'' else venue x)\<rparr>"
    by metis
  with body [of y] show ?thesis ..
qed

theorem map_instrumentId_no_year_digit_witness:
  "2 \<le> length ''SPY'' \<and> \<not> isdigit (last ''SPY'') \<and>
   \<not> isdigit (''SPY'' ! (length ''SPY'' - 2)) \<and>
   CHR ''.'' \<notin> set ''GLBX'' \<and>
   map_instrumentId 2024 \<lparr>symbol = ''SPY'', venue = ''GLBX''\<rparr> =
     Inr \<lparr>symbol = ''SPY'', venue = ''CME''\<rparr> \<and>
   fst (map_instrumentId_cached [] 2024 \<lparr>symbol = ''SPY'', venue = ''GLBX''\<rparr>) =
     Inr \<lparr>symbol = ''SPY'', venue = ''CME''\<rparr>"
  using map_instrumentId_no_year_digit
          [of "\<lparr>symbol = ''SPY'', venue = ''GLBX''\<rparr>" 2024 "[]"]
  by (simp add: isdigit_def)

text \<open>
  C10. Whenever the function returns, the input symbol without its last two characters
  is a prefix of the result's symbol.
\<close>

theorem map_instrumentId_keeps_prefix:
  assumes "map_instrumentId y x = Inr r"
  shows "prefix (take (length (symbol x) - 2) (symbol x)) (symbol r)"
proof -
  let ?s = "symbol x"
  let ?ns = "if isdigit (?s ! (length ?s - 2)) then take (length ?s - 2) ?s @ [last ?s]
             else if isdigit (last ?s) then butlast ?s @ [hd (str_int y)] @ [last ?s]
             else ?s"
  from assms have long: "2 \<le> length ?s"
    by (rule map_instrumentId_returned)
  have "take (length ?s - 2) (butlast ?s) = take (length ?s - 2) ?s"
    by (simp add: butlast_conv_take min_def)
  then have "prefix (take (length ?s - 2) ?s) (butlast ?s)"
    by (metis take_is_prefix)
  then have "prefix (take (length ?s - 2) ?s) (butlast ?s @ [hd (str_int y)] @ [last ?s])"
    by (rule prefix_prefix)
  then have kept: "prefix (take (length ?s - 2) ?s) ?ns"
    by (simp add: take_is_prefix)
  from assms from_str_join_any have "prefix ?ns (symbol r)"
    unfolding map_instrumentId_join [OF long] by (metis sum.inject(2))
  with kept show ?thesis
    by (rule prefix_order.trans)
qed

theorem map_instrumentId_keeps_prefix_witness:
  "map_instrumentId 2024 \<lparr>symbol = ''ESH4'', venue = ''CME''\<rparr> =
     Inr \<lparr>symbol = ''ESH24'', venue = ''GLBX''\<rparr> \<and>
   prefix ''ES'' ''ESH24''"
proof -
  have h: "map_instrumentId 2024 \<lparr>symbol = ''ESH4'', venue = ''CME''\<rparr> =
             Inr \<lparr>symbol = ''ESH24'', venue = ''GLBX''\<rparr>"
    by (simp add: map_instrumentId_def py_index_def py_slice_to_def isdigit_def
        from_str_def rsplit_dot_def str_int_def str_nat.simps digit_char_def)
  show ?thesis using map_instrumentId_keeps_prefix [OF h] h by simp
qed

section \<open>The claim about the cache\<close>






end
